theory Spec2Isabelle
  imports Complex_Main
begin

section \<open>JavaScript numbers\<close>

text \<open>
  The dashboard computes with JavaScript numbers. A number is modelled as one of the three
  special values of IEEE 754 or a finite value, which is kept as an exact real: rounding to
  the nearest double, overflow of a finite operation to an infinity, and the sign of zero
  are not modelled (a zero divisor counts as \<open>+0\<close>). What is modelled is everything the
  source can observe without rounding: \<open>NaN\<close> is absorbing and compares false with
  everything, a non-zero value divided by zero is an infinity, \<open>0 / 0\<close> is \<open>NaN\<close>.
\<close>

datatype jsnum = NaN | NInf | Fin real | PInf

fun isNaN :: "jsnum \<Rightarrow> bool" where
  "isNaN NaN = True"
| "isNaN _ = False"

fun jneg :: "jsnum \<Rightarrow> jsnum" where
  "jneg NaN = NaN"
| "jneg NInf = PInf"
| "jneg PInf = NInf"
| "jneg (Fin a) = Fin (- a)"

text \<open>\<open>x + y\<close>\<close>

fun jadd :: "jsnum \<Rightarrow> jsnum \<Rightarrow> jsnum" where
  "jadd NaN y = NaN"
| "jadd x NaN = NaN"
| "jadd (Fin a) (Fin b) = Fin (a + b)"
| "jadd PInf NInf = NaN"
| "jadd NInf PInf = NaN"
| "jadd PInf y = PInf"
| "jadd x PInf = PInf"
| "jadd NInf y = NInf"
| "jadd x NInf = NInf"

text \<open>\<open>x - y\<close>\<close>

definition jsub :: "jsnum \<Rightarrow> jsnum \<Rightarrow> jsnum" where
  "jsub x y = jadd x (jneg y)"

text \<open>An infinity multiplied or divided by a finite value of the given sign.\<close>

definition scale_inf :: "jsnum \<Rightarrow> real \<Rightarrow> jsnum" where
  "scale_inf i a = (if a = 0 then NaN else if 0 < a then i else jneg i)"

text \<open>\<open>x * y\<close>\<close>

fun jmul :: "jsnum \<Rightarrow> jsnum \<Rightarrow> jsnum" where
  "jmul NaN y = NaN"
| "jmul x NaN = NaN"
| "jmul (Fin a) (Fin b) = Fin (a * b)"
| "jmul (Fin a) y = scale_inf y a"
| "jmul x (Fin b) = scale_inf x b"
| "jmul PInf y = y"
| "jmul NInf y = jneg y"

text \<open>\<open>x / y\<close>\<close>

fun jdiv :: "jsnum \<Rightarrow> jsnum \<Rightarrow> jsnum" where
  "jdiv NaN y = NaN"
| "jdiv x NaN = NaN"
| "jdiv (Fin a) (Fin b) =
     (if b = 0 then (if a = 0 then NaN else if 0 < a then PInf else NInf)
      else Fin (a / b))"
| "jdiv (Fin a) y = Fin 0"
| "jdiv x (Fin b) = (if 0 \<le> b then x else jneg x)"
| "jdiv x y = NaN"

text \<open>\<open>x <= y\<close>, false as soon as one side is \<open>NaN\<close>.\<close>

fun jle :: "jsnum \<Rightarrow> jsnum \<Rightarrow> bool" where
  "jle NaN y = False"
| "jle x NaN = False"
| "jle NInf y = True"
| "jle x PInf = True"
| "jle (Fin a) (Fin b) = (a \<le> b)"
| "jle x y = False"

text \<open>\<open>x >= y\<close>\<close>

definition jge :: "jsnum \<Rightarrow> jsnum \<Rightarrow> bool" where
  "jge x y = jle y x"

text \<open>\<open>Math.min(x, y)\<close> and \<open>Math.max(x, y)\<close>: \<open>NaN\<close> if either argument is.\<close>

definition jmin :: "jsnum \<Rightarrow> jsnum \<Rightarrow> jsnum" where
  "jmin x y = (if isNaN x \<or> isNaN y then NaN else if jle x y then x else y)"

definition jmax :: "jsnum \<Rightarrow> jsnum \<Rightarrow> jsnum" where
  "jmax x y = (if isNaN x \<or> isNaN y then NaN else if jle x y then y else x)"

text \<open>\<open>Math.ceil(x)\<close> and \<open>Math.floor(x)\<close>\<close>

fun jceil :: "jsnum \<Rightarrow> jsnum" where
  "jceil (Fin a) = Fin (of_int \<lceil>a\<rceil>)"
| "jceil x = x"

fun jfloor :: "jsnum \<Rightarrow> jsnum" where
  "jfloor (Fin a) = Fin (of_int \<lfloor>a\<rfloor>)"
| "jfloor x = x"

text \<open>The finite value of a number, for stating results over the reals.\<close>

fun fin_val :: "jsnum \<Rightarrow> real" where
  "fin_val (Fin a) = a"
| "fin_val x = 0"

fun is_fin :: "jsnum \<Rightarrow> bool" where
  "is_fin (Fin a) = True"
| "is_fin x = False"

section \<open>Strings and the string functions of the language\<close>

text \<open>
  A string is the list of its UTF-16 code units, each an integer; \<open>js\<close> gives the string
  of an ASCII literal. White space is the class that \<open>trim\<close>, \<open>\s\<close>, \<open>parseFloat\<close> and
  \<open>parseInt\<close> share: TAB, LF, VT, FF, CR, the space, U+00A0, U+1680, U+2000 to U+200A,
  U+2028, U+2029, U+202F, U+205F, U+3000 and U+FEFF. \<open>\d\<close> is \<open>0\<close> to \<open>9\<close>.
  \<open>toLowerCase\<close> is modelled for the letters \<open>A\<close> to \<open>Z\<close>; the letters beyond ASCII, which
  the language maps too, are left as they are.
\<close>

type_synonym jsstring = "int list"

definition js :: "string \<Rightarrow> jsstring" where
  "js s = map of_char s"

definition is_space :: "int \<Rightarrow> bool" where
  "is_space c =
     (c \<in> {0x09, 0x0A, 0x0B, 0x0C, 0x0D, 0x20, 0xA0, 0x1680, 0x2028, 0x2029, 0x202F, 0x205F,
            0x3000, 0xFEFF}
      \<or> (0x2000 \<le> c \<and> c \<le> 0x200A))"

definition is_digit :: "int \<Rightarrow> bool" where
  "is_digit c = (48 \<le> c \<and> c \<le> 57)"

definition digit_val :: "int \<Rightarrow> nat" where
  "digit_val c = nat (c - 48)"

definition digit_char :: "nat \<Rightarrow> int" where
  "digit_char d = 48 + int d"

text \<open>The value of a sequence of decimal digits.\<close>

definition digits_val :: "jsstring \<Rightarrow> nat" where
  "digits_val ds = foldl (\<lambda>a c. 10 * a + digit_val c) 0 ds"

text \<open>\<open>s.trim()\<close>\<close>

definition trim :: "jsstring \<Rightarrow> jsstring" where
  "trim s = rev (dropWhile is_space (rev (dropWhile is_space s)))"

text \<open>\<open>s.toLowerCase()\<close>\<close>

definition lower_char :: "int \<Rightarrow> int" where
  "lower_char c = (if 65 \<le> c \<and> c \<le> 90 then c + 32 else c)"

definition toLowerCase :: "jsstring \<Rightarrow> jsstring" where
  "toLowerCase s = map lower_char s"

text \<open>\<open>s.replace(/,/g, '')\<close>\<close>

definition remove_commas :: "jsstring \<Rightarrow> jsstring" where
  "remove_commas s = filter (\<lambda>c. c \<noteq> of_char CHR '','') s"

text \<open>\<open>s.replace(/\s+/g, '-')\<close>: every maximal run of white space becomes one dash.\<close>

function dash_spaces :: "jsstring \<Rightarrow> jsstring" where
  "dash_spaces [] = []"
| "dash_spaces (c # s) =
     (if is_space c then of_char CHR ''-'' # dash_spaces (dropWhile is_space s)
      else c # dash_spaces s)"
  by pat_completeness auto
termination
  by (relation "measure length") (auto simp: length_dropWhile_le less_Suc_eq_le)

text \<open>Does \<open>s\<close> begin with \<open>p\<close>?\<close>

fun starts_with :: "jsstring \<Rightarrow> jsstring \<Rightarrow> bool" where
  "starts_with [] s = True"
| "starts_with (p # ps) [] = False"
| "starts_with (p # ps) (c # s) = (p = c \<and> starts_with ps s)"

text \<open>\<open>s.includes(p)\<close>, named \<open>includes_str\<close> here.\<close>

fun includes_str :: "jsstring \<Rightarrow> jsstring \<Rightarrow> bool" where
  "includes_str [] p = starts_with p []"
| "includes_str (c # s) p = (starts_with p (c # s) \<or> includes_str s p)"

text \<open>\<open>s.split('\n')\<close>: at least one line, the last one after the last line feed.\<close>

fun split_lines :: "jsstring \<Rightarrow> jsstring list" where
  "split_lines [] = [[]]"
| "split_lines (c # s) =
     (if c = 0x0A then [] # split_lines s
      else (case split_lines s of [] \<Rightarrow> [[c]] | l # ls \<Rightarrow> (c # l) # ls))"

text \<open>The decimal digits of a natural number, as a template literal prints an index.\<close>

function nat_to_string :: "nat \<Rightarrow> jsstring" where
  "nat_to_string n =
     (if n < 10 then [digit_char n] else nat_to_string (n div 10) @ [digit_char (n mod 10)])"
  by pat_completeness auto
termination
  by (relation "measure id") auto

declare nat_to_string.simps [simp del]

subsection \<open>\<open>parseFloat\<close> and \<open>parseInt\<close>\<close>

text \<open>\<open>ExponentPart\<close>: the factor that an exponent at the head of \<open>s\<close> contributes.\<close>

definition exponent_factor :: "jsstring \<Rightarrow> real" where
  "exponent_factor s =
     (case s of
        [] \<Rightarrow> 1
      | c # r \<Rightarrow>
          if c = of_char CHR ''e'' \<or> c = of_char CHR ''E'' then
            (case r of
               [] \<Rightarrow> 1
             | d # r' \<Rightarrow>
                 if d = of_char CHR ''-'' then
                   (if takeWhile is_digit r' = [] then 1
                    else 1 / 10 ^ digits_val (takeWhile is_digit r'))
                 else if d = of_char CHR ''+'' then
                   (if takeWhile is_digit r' = [] then 1
                    else 10 ^ digits_val (takeWhile is_digit r'))
                 else
                   (if takeWhile is_digit r = [] then 1
                    else 10 ^ digits_val (takeWhile is_digit r)))
          else 1)"

text \<open>
  The longest prefix of \<open>s\<close> that is an unsigned decimal literal (digits, an optional
  fraction, an optional exponent), and its value; \<open>None\<close> when there is none. The value
  is the exact decimal value, not its nearest double.
\<close>

definition unsigned_decimal :: "jsstring \<Rightarrow> real option" where
  "unsigned_decimal s =
     (let ip = takeWhile is_digit s;
          r1 = dropWhile is_digit s;
          dot = (case r1 of [] \<Rightarrow> False | c # r \<Rightarrow> c = of_char CHR ''.'');
          fp = (if dot then takeWhile is_digit (tl r1) else []);
          r2 = (if dot then dropWhile is_digit (tl r1) else r1)
      in if ip = [] \<and> fp = [] then None
         else Some ((real (digits_val ip) + real (digits_val fp) / 10 ^ length fp)
                    * exponent_factor r2))"

text \<open>\<open>parseFloat(s)\<close>\<close>

definition parseFloat :: "jsstring \<Rightarrow> jsnum" where
  "parseFloat s =
     (let t = dropWhile is_space s;
          neg = (case t of [] \<Rightarrow> False | c # r \<Rightarrow> c = of_char CHR ''-'');
          u = (case t of
                 [] \<Rightarrow> []
               | c # r \<Rightarrow> if c = of_char CHR ''-'' \<or> c = of_char CHR ''+'' then r else t)
      in if starts_with (js ''Infinity'') u then (if neg then NInf else PInf)
         else (case unsigned_decimal u of
                 None \<Rightarrow> NaN
               | Some v \<Rightarrow> Fin (if neg then - v else v)))"

definition is_hex_digit :: "int \<Rightarrow> bool" where
  "is_hex_digit c = (is_digit c \<or> (97 \<le> c \<and> c \<le> 102) \<or> (65 \<le> c \<and> c \<le> 70))"

definition hex_val :: "int \<Rightarrow> nat" where
  "hex_val c = (if is_digit c then nat (c - 48) else if 97 \<le> c then nat (c - 87) else nat (c - 55))"

text \<open>\<open>parseInt(s)\<close> with no radix: decimal, or hexadecimal after \<open>0x\<close>.\<close>

definition parseInt :: "jsstring \<Rightarrow> jsnum" where
  "parseInt s =
     (let t = dropWhile is_space s;
          neg = (case t of [] \<Rightarrow> False | c # r \<Rightarrow> c = of_char CHR ''-'');
          u = (case t of
                 [] \<Rightarrow> []
               | c # r \<Rightarrow> if c = of_char CHR ''-'' \<or> c = of_char CHR ''+'' then r else t);
          hex = (starts_with (js ''0x'') u \<or> starts_with (js ''0X'') u);
          ds = (if hex then takeWhile is_hex_digit (drop 2 u) else takeWhile is_digit u);
          v = (if hex then foldl (\<lambda>a c. 16 * a + hex_val c) 0 ds else digits_val ds)
      in if ds = [] then NaN else Fin (if neg then - real v else real v))"

subsection \<open>The regular expressions of the text parser\<close>

text \<open>\<open>line.match(re)\<close> without the \<open>g\<close> flag: the match at the leftmost position.\<close>

fun first_match :: "(jsstring \<Rightarrow> 'a option) \<Rightarrow> jsstring \<Rightarrow> 'a option" where
  "first_match m [] = m []"
| "first_match m (c # s) = (case m (c # s) of Some r \<Rightarrow> Some r | None \<Rightarrow> first_match m s)"

text \<open>
  A match of \<open>(A+)\s*\/\s*(B+)\<close> at the head of \<open>s\<close>, or of \<open>(A+)\/(B+)\<close> when \<open>ws\<close> is
  false; the result is the first group. The classes \<open>A\<close> used below hold neither white
  space nor the slash, so the greedy first group is the only one that can match.
\<close>

definition ratio_at ::
    "(int \<Rightarrow> bool) \<Rightarrow> bool \<Rightarrow> (int \<Rightarrow> bool) \<Rightarrow> jsstring \<Rightarrow> jsstring option" where
  "ratio_at A ws B s =
     (let g1 = takeWhile A s;
          r1 = dropWhile A s;
          r2 = (if ws then dropWhile is_space r1 else r1)
      in (case r2 of
            [] \<Rightarrow> None
          | c # r3 \<Rightarrow>
              (let r4 = (if ws then dropWhile is_space r3 else r3)
               in if g1 \<noteq> [] \<and> c = of_char CHR ''/''
                     \<and> (case r4 of [] \<Rightarrow> False | d # r5 \<Rightarrow> B d)
                  then Some g1 else None)))"

text \<open>A match of \<open>(A+)\s*lit\<close> at the head of \<open>s\<close>; the result is the first group.\<close>

definition suffix_at :: "(int \<Rightarrow> bool) \<Rightarrow> jsstring \<Rightarrow> jsstring \<Rightarrow> jsstring option" where
  "suffix_at A lit s =
     (let g1 = takeWhile A s;
          r1 = dropWhile is_space (dropWhile A s)
      in if g1 \<noteq> [] \<and> starts_with lit r1 then Some g1 else None)"

definition is_digit_or_comma :: "int \<Rightarrow> bool" where
  "is_digit_or_comma c = (is_digit c \<or> c = of_char CHR '','')"

definition is_digit_or_dot :: "int \<Rightarrow> bool" where
  "is_digit_or_dot c = (is_digit c \<or> c = of_char CHR ''.'')"

text \<open>
  The two Devanagari words of the patterns: U+092E U+093F U+0928 U+093F U+091F U+0947
  and U+092A U+0942 U+0930 U+094D U+0923.
\<close>

definition minite :: jsstring where
  "minite = [0x092E, 0x093F, 0x0928, 0x093F, 0x091F, 0x0947]"

definition purna :: jsstring where
  "purna = [0x092A, 0x0942, 0x0930, 0x094D, 0x0923]"

section \<open>Data model\<close>

text \<open>\<open>interface Goal\<close> of the type declarations; the field \<open>id\<close> is \<open>id_goal\<close> here.\<close>

record goal =
  id_goal :: jsstring
  name :: jsstring
  current :: jsnum
  target :: jsnum
  unit :: jsstring
  category :: jsstring

text \<open>\<open>INITIAL_DATA\<close> of \<open>constants.ts\<close>\<close>

definition INITIAL_DATA :: "goal list" where
  "INITIAL_DATA =
    [\<lparr>id_goal = js ''running'', name = js ''Running (1 Mile)'', current = Fin 3, target = Fin 51,
       unit = js ''Miles'', category = js ''physical''\<rparr>,
     \<lparr>id_goal = js ''gym'', name = js ''Gym Sessions'', current = Fin 2, target = Fin 51,
       unit = js ''Sessions'', category = js ''physical''\<rparr>,
     \<lparr>id_goal = js ''jump-ropes'', name = js ''Jump Ropes'', current = Fin 2028, target = Fin 51000,
       unit = js ''Ropes'', category = js ''physical''\<rparr>,
     \<lparr>id_goal = js ''sit-ups'', name = js ''Sit-ups'', current = Fin 65, target = Fin 5000,
       unit = js ''Reps'', category = js ''physical''\<rparr>,
     \<lparr>id_goal = js ''manache-shlok'', name = js ''Manache Shlok'', current = Fin 22, target = Fin 51,
       unit = js ''Shloks'', category = js ''mental''\<rparr>,
     \<lparr>id_goal = js ''shir-sasan'', name = js ''Shir-sasan'', current = Fin 1.5, target = Fin 100,
       unit = js ''Minutes'', category = js ''physical''\<rparr>,
     \<lparr>id_goal = js ''surya-namaskar'', name = js ''Surya Namaskar'', current = Fin 12, target = Fin 500,
       unit = js ''Reps'', category = js ''physical''\<rparr>,
     \<lparr>id_goal = js ''push-ups'', name = js ''Push-ups'', current = Fin 11, target = Fin 500,
       unit = js ''Reps'', category = js ''physical''\<rparr>]"

section \<open>Derived values of the dashboard\<close>

record time_progress =
  percentage :: jsnum
  daysLeft :: jsnum
  daysElapsed :: jsnum

text \<open>
  The body of \<open>timeProgress\<close>. The source reads \<open>start\<close> and \<open>end\<close> from the two date
  constants and \<open>now\<close> from the clock; here the three time values (milliseconds) are
  arguments.
\<close>

definition computeTimeProgress :: "jsnum \<Rightarrow> jsnum \<Rightarrow> jsnum \<Rightarrow> time_progress" where
  "computeTimeProgress start end now =
    (let total = jsub end start;
         elapsed = jsub now start
     in \<lparr>percentage = jmin (jmax (jmul (jdiv elapsed total) (Fin 100)) (Fin 0)) (Fin 100),
         daysLeft = jceil (jdiv (jsub end now) (Fin (1000 * 60 * 60 * 24))),
         daysElapsed = jfloor (jdiv (jsub now start) (Fin (1000 * 60 * 60 * 24)))\<rparr>)"

record stats =
  averageProgress :: jsnum
  completedGoals :: nat
  totalGoals :: nat

text \<open>The body of \<open>stats\<close>: \<open>reduce\<close> is a left fold from \<open>0\<close>.\<close>

definition computeStats :: "goal list \<Rightarrow> stats" where
  "computeStats goals =
    (let totalProgress =
           jdiv (foldl (\<lambda>acc g. jadd acc (jdiv (current g) (target g))) (Fin 0) goals)
                (Fin (real (length goals)))
     in \<lparr>averageProgress = jmul totalProgress (Fin 100),
         completedGoals = length (filter (\<lambda>g. jge (current g) (target g)) goals),
         totalGoals = length goals\<rparr>)"

record chart_entry =
  label :: jsstring
  progress :: jsnum
  remaining :: jsnum

text \<open>The body of \<open>chartData\<close>; the source's field \<open>name\<close> of an entry is \<open>label\<close> here.\<close>

definition computeChartData :: "goal list \<Rightarrow> chart_entry list" where
  "computeChartData goals =
    map (\<lambda>g. \<lparr>label = name g,
              progress = jmin (jmul (jdiv (current g) (target g)) (Fin 100)) (Fin 100),
              remaining = jmax (jsub (Fin 100) (jmul (jdiv (current g) (target g)) (Fin 100)))
                               (Fin 0)\<rparr>) goals"

section \<open>Text ingestion\<close>

text \<open>
  The source holds two versions of the component, the first with the text parser and the
  second with the sheet sync. This is the state of the first. The parser writes to goal
  objects that the array of the state and its copy share, so the objects are kept in a
  store, by address: \<open>heap\<close> is the store, and the state variable \<open>goals\<close> is the array
  \<open>goals_arr\<close> of the addresses of its goals.
\<close>

record update_state =
  heap :: "goal list"
  goals_arr :: "nat list"
  rawText :: jsstring
  isUpdateModalOpen :: bool

text \<open>The goal list that the component shows: the objects of the array, in its order.\<close>

definition goal_list :: "update_state \<Rightarrow> goal list" where
  "goal_list st = map (\<lambda>a. heap st ! a) (goals_arr st)"

text \<open>
  \<open>newGoals.find(g => g.id === i)\<close>: the address of the first goal of the array with the
  identifier.
\<close>

fun find_goal :: "goal list \<Rightarrow> jsstring \<Rightarrow> nat list \<Rightarrow> nat option" where
  "find_goal h i [] = None"
| "find_goal h i (a # rest) = (if id_goal (h ! a) = i then Some a else find_goal h i rest)"

text \<open>
  \<open>const goal = newGoals.find(g => g.id === i); if (goal) goal.current = v\<close>: the write
  goes to the object that was found, in the store.
\<close>

definition write_current :: "jsstring \<Rightarrow> jsnum \<Rightarrow> nat list \<Rightarrow> goal list \<Rightarrow> goal list" where
  "write_current i v newGoals h =
     (case find_goal h i newGoals of
        None \<Rightarrow> h
      | Some a \<Rightarrow> h[a := (h ! a)\<lparr>current := v\<rparr>])"

text \<open>The body of the \<open>forEach\<close> over the lines of the pasted text.\<close>

definition update_line :: "jsstring \<Rightarrow> nat list \<Rightarrow> goal list \<Rightarrow> goal list" where
  "update_line line newGoals h =
     (if includes_str line (js ''Running'') then
        (case first_match (ratio_at is_digit False is_digit) line of
           Some m1 \<Rightarrow> write_current (js ''running'') (parseInt m1) newGoals h
         | None \<Rightarrow> h)
      else if includes_str line (js ''Jump Ropes'') then
        (case first_match (ratio_at is_digit_or_comma True is_digit_or_comma) line of
           Some m1 \<Rightarrow> write_current (js ''jump-ropes'') (parseInt (remove_commas m1)) newGoals h
         | None \<Rightarrow> h)
      else if includes_str line (js ''Sit-ups'') then
        (case first_match (ratio_at is_digit True is_digit_or_comma) line of
           Some m1 \<Rightarrow> write_current (js ''sit-ups'') (parseInt m1) newGoals h
         | None \<Rightarrow> h)
      else if includes_str line (js ''Manache Shlok'') then
        (case first_match (ratio_at is_digit False is_digit) line of
           Some m1 \<Rightarrow> write_current (js ''manache-shlok'') (parseInt m1) newGoals h
         | None \<Rightarrow> h)
      else if includes_str line (js ''Shir-sasan'') then
        (case first_match (suffix_at is_digit_or_dot minite) line of
           Some m1 \<Rightarrow> write_current (js ''shir-sasan'') (parseFloat m1) newGoals h
         | None \<Rightarrow> h)
      else if includes_str line (js ''Mom's Progress'') then
        (case first_match (ratio_at is_digit False is_digit) line of
           Some m1 \<Rightarrow> write_current (js ''moms-progress'') (parseInt m1) newGoals h
         | None \<Rightarrow> h)
      else if includes_str line (js ''Surya Namaskar'') then
        (case first_match (suffix_at is_digit purna) line of
           Some m1 \<Rightarrow> write_current (js ''surya-namaskar'') (parseInt m1) newGoals h
         | None \<Rightarrow> h)
      else if includes_str line (js ''Push-ups'') then
        (case first_match (suffix_at is_digit purna) line of
           Some m1 \<Rightarrow> write_current (js ''push-ups'') (parseInt m1) newGoals h
         | None \<Rightarrow> h)
      else h)"

text \<open>What \<open>handleUpdate\<close> tells the user: nothing, or the alert of its \<open>catch\<close>.\<close>

datatype update_outcome = Updated | ParseError

text \<open>
  \<open>handleUpdate\<close>. The copy \<open>[...goals]\<close> is a new array of the same addresses; the loop
  writes to the objects in the store, line by line; \<open>setGoals(newGoals)\<close>, closing the
  dialog and clearing the text come after the loop. No statement of the \<open>try\<close> block
  raises by itself (the lines are strings; \<open>match\<close>, \<open>find\<close>, \<open>parseInt\<close> and
  \<open>parseFloat\<close> return on every argument), so the exception that the \<open>catch\<close> is there
  for comes from outside the parser, and the run says where: \<open>raised = None\<close> is a run
  without an exception, \<open>raised = Some k\<close> a run in which an exception is raised when \<open>k\<close>
  lines have been processed (after the last line: before \<open>setGoals\<close>). The \<open>catch\<close> alerts
  and restores nothing: the writes made so far stay in the store, the array of the state,
  the dialog and the text are as before.
\<close>

definition handleUpdate :: "nat option \<Rightarrow> update_state \<Rightarrow> update_outcome \<times> update_state" where
  "handleUpdate raised st =
     (let newGoals = goals_arr st;
          ls = split_lines (rawText st)
      in (case raised of
            None \<Rightarrow>
              (Updated,
               st\<lparr>heap := foldl (\<lambda>h line. update_line line newGoals h) (heap st) ls,
                  goals_arr := newGoals, isUpdateModalOpen := False, rawText := []\<rparr>)
          | Some k \<Rightarrow>
              (ParseError,
               st\<lparr>heap := foldl (\<lambda>h line. update_line line newGoals h) (heap st) (take k ls)\<rparr>)))"

text \<open>The substrings that select a branch of the parser.\<close>

definition anchors :: "jsstring list" where
  "anchors = [js ''Running'', js ''Jump Ropes'', js ''Sit-ups'', js ''Manache Shlok'',
              js ''Shir-sasan'', js ''Mom's Progress'', js ''Surya Namaskar'', js ''Push-ups'']"

text \<open>
  A state is well formed when every address of its array holds an object and no object is
  twice in the array, as in the seed list, which is built from eight object literals.
\<close>

definition wf_goals :: "update_state \<Rightarrow> bool" where
  "wf_goals st =
     (distinct (goals_arr st) \<and> list_all (\<lambda>a. a < length (heap st)) (goals_arr st))"

section \<open>Tabular ingestion\<close>

type_synonym row = "jsstring list"

text \<open>\<open>row[k]\<close>: \<open>undefined\<close> beyond the end of the row.\<close>

definition cell :: "row \<Rightarrow> nat \<Rightarrow> jsstring option" where
  "cell r k = (if k < length r then Some (r ! k) else None)"

text \<open>\<open>row[k] ? f(row[k]) : d\<close>: an absent cell and the empty string are falsy.\<close>

definition cell_or :: "jsstring option \<Rightarrow> (jsstring \<Rightarrow> 'a) \<Rightarrow> 'a \<Rightarrow> 'a" where
  "cell_or c f d = (case c of None \<Rightarrow> d | Some s \<Rightarrow> if s = [] then d else f s)"

text \<open>The body of the \<open>forEach\<close> over the rows: the goal pushed for a row, if any.\<close>

definition sync_row :: "nat \<Rightarrow> row \<Rightarrow> goal option" where
  "sync_row index r =
     (if cell_or (cell r 0) (\<lambda>s. trim s = []) True then None
      else
        (let nameFromSheet = cell_or (cell r 0) trim [];
             currentVal = cell_or (cell r 1) (\<lambda>s. parseFloat (remove_commas s)) (Fin 0);
             targetVal = cell_or (cell r 2) (\<lambda>s. parseFloat (remove_commas s)) (Fin 100);
             unitVal = cell_or (cell r 3) trim (js ''Units'');
             rawCategory = cell_or (cell r 4) (\<lambda>s. toLowerCase (trim s)) (js ''physical'');
             categoryVal = (if rawCategory \<in> set [js ''physical'', js ''mental'', js ''other'']
                            then rawCategory else js ''physical'')
         in Some \<lparr>id_goal = js ''sheet-'' @ nat_to_string index @ js ''-''
                              @ toLowerCase (dash_spaces nameFromSheet),
                   name = nameFromSheet,
                   current = (if isNaN currentVal then Fin 0 else currentVal),
                   target = (if isNaN targetVal then Fin 100 else targetVal),
                   unit = unitVal,
                   category = categoryVal\<rparr>))"

text \<open>\<open>rows.forEach((row, index) => ...)\<close> from the index \<open>index\<close> on: the goals pushed.\<close>

fun sync_rows :: "nat \<Rightarrow> row list \<Rightarrow> goal list" where
  "sync_rows index [] = []"
| "sync_rows index (r # rs) =
     (case sync_row index r of
        None \<Rightarrow> sync_rows (Suc index) rs
      | Some g \<Rightarrow> g # sync_rows (Suc index) rs)"

text \<open>The state of the second version of the component.\<close>

record app_state =
  goals :: "goal list"
  isSyncing :: bool

text \<open>The environment: the two configuration variables, each possibly unset.\<close>

record env =
  VITE_GOOGLE_SHEET_ID :: "jsstring option"
  VITE_GOOGLE_API_KEY :: "jsstring option"

text \<open>
  What the request does: it is aborted by the timer, it is rejected (no network; a body
  that is not JSON) with a message, it answers outside 2xx with a status and possibly a
  message in the error payload, or it answers with a body whose \<open>values\<close> are the rows,
  possibly absent.
\<close>

datatype fetch_result =
  Aborted
| Rejected jsstring
| Response_not_ok nat "jsstring option"
| Response_ok "row list option"

text \<open>The alert that ends \<open>fetchFromGoogleSheets\<close>.\<close>

datatype alert =
  ConfigMissing
| NoDataFound
| Synced nat
| NoValidGoals
| TimedOut
| SyncFailed jsstring

text \<open>A match of \<open>\/d\/([a-zA-Z0-9-_]+)\<close> at the head of \<open>s\<close>.\<close>

definition is_id_char :: "int \<Rightarrow> bool" where
  "is_id_char c =
     (is_digit c \<or> (97 \<le> c \<and> c \<le> 122) \<or> (65 \<le> c \<and> c \<le> 90)
      \<or> c = of_char CHR ''-'' \<or> c = of_char CHR ''_'')"

definition sheet_id_at :: "jsstring \<Rightarrow> jsstring option" where
  "sheet_id_at s =
     (if starts_with (js ''/d/'') s \<and> takeWhile is_id_char (drop 3 s) \<noteq> []
      then Some (takeWhile is_id_char (drop 3 s)) else None)"

text \<open>The sheet identifier of the environment, taken out of a pasted URL.\<close>

definition sheet_id :: "env \<Rightarrow> jsstring" where
  "sheet_id e =
     (let sheetId = (case VITE_GOOGLE_SHEET_ID e of None \<Rightarrow> [] | Some s \<Rightarrow> s)
      in if includes_str sheetId (js ''docs.google.com/spreadsheets/d/'') then
           (case first_match sheet_id_at sheetId of Some m1 \<Rightarrow> m1 | None \<Rightarrow> sheetId)
         else sheetId)"

text \<open>The URL of the request, when the configuration is there.\<close>

definition sync_url :: "env \<Rightarrow> jsstring option" where
  "sync_url e =
     (case VITE_GOOGLE_API_KEY e of
        None \<Rightarrow> None
      | Some apiKey \<Rightarrow>
          if sheet_id e = [] \<or> apiKey = [] then None
          else Some (js ''https://sheets.googleapis.com/v4/spreadsheets/'' @ sheet_id e
                     @ js ''/values/Sheet1!A2:E50?key='' @ apiKey))"

text \<open>
  \<open>fetchFromGoogleSheets\<close>, with the network as a function from the URL to what the
  request does. \<open>setGoals\<close> is called in one place only, after the loop over the rows.
\<close>

definition fetchFromGoogleSheets ::
    "env \<Rightarrow> (jsstring \<Rightarrow> fetch_result) \<Rightarrow> app_state \<Rightarrow> alert \<times> app_state" where
  "fetchFromGoogleSheets e fetch st =
     (case sync_url e of
        None \<Rightarrow> (ConfigMissing, st)
      | Some url \<Rightarrow>
          (case fetch url of
             Aborted \<Rightarrow> (TimedOut, st\<lparr>isSyncing := False\<rparr>)
           | Rejected msg \<Rightarrow> (SyncFailed msg, st\<lparr>isSyncing := False\<rparr>)
           | Response_not_ok status msg \<Rightarrow>
               (SyncFailed (case msg of
                              None \<Rightarrow> js ''HTTP error! status: '' @ nat_to_string status
                            | Some m \<Rightarrow>
                                if m = [] then js ''HTTP error! status: '' @ nat_to_string status
                                else m),
                st\<lparr>isSyncing := False\<rparr>)
           | Response_ok None \<Rightarrow> (NoDataFound, st\<lparr>isSyncing := False\<rparr>)
           | Response_ok (Some rows) \<Rightarrow>
               if rows = [] then (NoDataFound, st\<lparr>isSyncing := False\<rparr>)
               else
                 (let syncedGoals = sync_rows 0 rows
                  in if syncedGoals \<noteq> [] then
                       (Synced (length syncedGoals),
                        st\<lparr>goals := syncedGoals, isSyncing := False\<rparr>)
                     else (NoValidGoals, st\<lparr>isSyncing := False\<rparr>))))"

text \<open>The alerts that report a failure: all but the one of a completed sync.\<close>

fun is_failure :: "alert \<Rightarrow> bool" where
  "is_failure (Synced n) = False"
| "is_failure a = True"

section \<open>The contract of the statistics, in the specification's words\<close>

text \<open>The sum of a sequence of numbers, from the right.\<close>

definition jsum :: "jsnum list \<Rightarrow> jsnum" where
  "jsum xs = foldr jadd xs (Fin 0)"

text \<open>
  The specification's \<open>averageProgress\<close>: the mean over all goals of \<open>current/target\<close>,
  scaled to percent.
\<close>

definition mean_percent :: "goal list \<Rightarrow> jsnum" where
  "mean_percent gs =
     jmul (jdiv (jsum (map (\<lambda>g. jdiv (current g) (target g)) gs)) (Fin (real (length gs))))
          (Fin 100)"

text \<open>A goal whose two numbers are finite and whose target is not zero.\<close>

definition finite_goal :: "goal \<Rightarrow> bool" where
  "finite_goal g = (is_fin (current g) \<and> is_fin (target g) \<and> target g \<noteq> Fin 0)"

text \<open>A goal that has not overshot, and a goal that has reached its target.\<close>

definition no_overshoot :: "goal \<Rightarrow> bool" where
  "no_overshoot g =
     (is_fin (current g) \<and> is_fin (target g) \<and> 0 < fin_val (target g) \<and>
      fin_val (current g) \<le> fin_val (target g))"

definition reached :: "goal \<Rightarrow> bool" where
  "reached g =
     (is_fin (current g) \<and> is_fin (target g) \<and> 0 < fin_val (target g) \<and>
      fin_val (target g) \<le> fin_val (current g))"

section \<open>Notions for stating the results on ingestion\<close>

text \<open>
  The list of values after \<open>write_current\<close>: the first goal with the identifier has the
  value, nothing else differs.
\<close>

fun set_current :: "jsstring \<Rightarrow> jsnum \<Rightarrow> goal list \<Rightarrow> goal list" where
  "set_current i v [] = []"
| "set_current i v (g # gs) =
     (if id_goal g = i then g\<lparr>current := v\<rparr> # gs else g # set_current i v gs)"

text \<open>The rows of a response body, none when \<open>values\<close> is absent.\<close>

definition fetched_rows :: "row list option \<Rightarrow> row list" where
  "fetched_rows v = (case v of None \<Rightarrow> [] | Some rows \<Rightarrow> rows)"

text \<open>The row index that a synthesized identifier \<open>sheet-<index>-<slug>\<close> carries.\<close>

definition id_index :: "jsstring \<Rightarrow> nat" where
  "id_index s = digits_val (takeWhile is_digit (drop 6 s))"

section \<open>Example inputs\<close>

text \<open>One goal behind and one goal ahead of its target.\<close>

definition mixed_goals :: "goal list" where
  "mixed_goals =
     [\<lparr>id_goal = js ''a'', name = js ''A'', current = Fin 0, target = Fin 10,
        unit = js ''Units'', category = js ''physical''\<rparr>,
      \<lparr>id_goal = js ''b'', name = js ''B'', current = Fin 20, target = Fin 10,
        unit = js ''Units'', category = js ''physical''\<rparr>]"

definition done_goals :: "goal list" where
  "done_goals =
     [\<lparr>id_goal = js ''a'', name = js ''A'', current = Fin 10, target = Fin 10,
        unit = js ''Units'', category = js ''physical''\<rparr>,
      \<lparr>id_goal = js ''b'', name = js ''B'', current = Fin 30, target = Fin 30,
        unit = js ''Units'', category = js ''mental''\<rparr>]"

definition over_goals :: "goal list" where
  "over_goals =
     [\<lparr>id_goal = js ''a'', name = js ''A'', current = Fin 10, target = Fin 10,
        unit = js ''Units'', category = js ''physical''\<rparr>,
      \<lparr>id_goal = js ''b'', name = js ''B'', current = Fin 45, target = Fin 30,
        unit = js ''Units'', category = js ''mental''\<rparr>]"

text \<open>A sheet whose only row reports a negative value.\<close>

definition negative_rows :: "row list" where
  "negative_rows = [[js ''X'', js ''-5'', js ''100'']]"

text \<open>The rows of the tabular examples, and the goals they give.\<close>

definition meditation_row :: row where
  "meditation_row = [js ''Meditation'', js ''10'', js ''30'', js ''Minutes'', js ''mental'']"

definition meditation_goal :: goal where
  "meditation_goal = \<lparr>id_goal = js ''sheet-0-meditation'', name = js ''Meditation'', current = Fin 10,
     target = Fin 30, unit = js ''Minutes'', category = js ''mental''\<rparr>"

definition zero_target_rows :: "row list" where
  "zero_target_rows = [[js ''X'', js ''5'', js ''0'']]"

definition zero_target_goal :: goal where
  "zero_target_goal = \<lparr>id_goal = js ''sheet-0-x'', name = js ''X'', current = Fin 5, target = Fin 0,
     unit = js ''Units'', category = js ''physical''\<rparr>"

text \<open>The state of the sync at start.\<close>

definition seed_state :: app_state where
  "seed_state = \<lparr>goals = INITIAL_DATA, isSyncing = False\<rparr>"

text \<open>
  The state of the text parser at start, with the dialog open; a pasted update; a pasted
  text without any anchor.
\<close>

definition seed_update :: update_state where
  "seed_update = \<lparr>heap = INITIAL_DATA, goals_arr = [0, 1, 2, 3, 4, 5, 6, 7], rawText = [],
     isUpdateModalOpen = True\<rparr>"

definition running_update :: jsstring where
  "running_update = js ''Running (1 Mile): 3/51''"

definition plain_text :: jsstring where
  "plain_text = js ''Rest day'' @ [0x0A] @ js ''Walked 2/3 of the way''"

text \<open>
  A state whose running goal stands at 2, held second in the array and first in the store,
  with the update pasted.
\<close>

definition stale_running :: goal where
  "stale_running = \<lparr>id_goal = js ''running'', name = js ''Running (1 Mile)'', current = Fin 2,
     target = Fin 51, unit = js ''Miles'', category = js ''physical''\<rparr>"

definition gym_goal :: goal where
  "gym_goal = \<lparr>id_goal = js ''gym'', name = js ''Gym Sessions'', current = Fin 2,
     target = Fin 51, unit = js ''Sessions'', category = js ''physical''\<rparr>"

definition stale_update :: update_state where
  "stale_update = \<lparr>heap = [stale_running, gym_goal], goals_arr = [1, 0],
     rawText = running_update, isUpdateModalOpen = True\<rparr>"








text \<open>A goal list with one goal at half of its target, in values that doubles hold exactly.\<close>

definition half_goals :: "goal list" where
  "half_goals =
     [\<lparr>id_goal = js ''a'', name = js ''A'', current = Fin 5, target = Fin 10,
        unit = js ''Units'', category = js ''physical''\<rparr>,
      \<lparr>id_goal = js ''b'', name = js ''B'', current = Fin 30, target = Fin 30,
        unit = js ''Units'', category = js ''mental''\<rparr>]"

text \<open>A complete configuration, its URL, and two networks.\<close>

definition sheet_env :: env where
  "sheet_env = \<lparr>VITE_GOOGLE_SHEET_ID = Some (js ''abc123''), VITE_GOOGLE_API_KEY = Some (js ''key'')\<rparr>"

definition sheet_url :: jsstring where
  "sheet_url = js ''https://sheets.googleapis.com/v4/spreadsheets/abc123/values/Sheet1!A2:E50?key=key''"

definition ok_network :: "jsstring \<Rightarrow> fetch_result" where
  "ok_network url = Response_ok (Some [meditation_row])"

definition forbidden_network :: "jsstring \<Rightarrow> fetch_result" where
  "forbidden_network url = Response_not_ok 403 None"

section \<open>Sums of JavaScript numbers\<close>

lemma jadd_zero_right: "jadd x (Fin 0) = x"
  by (cases x) auto

lemma jadd_assoc: "jadd (jadd x y) z = jadd x (jadd y z)"
  by (cases x; cases y; cases z) auto

lemma foldl_jadd: "foldl (\<lambda>acc g. jadd acc (f g)) a gs = jadd a (jsum (map f gs))"
  by (induction gs arbitrary: a) (auto simp: jsum_def jadd_zero_right jadd_assoc)

lemma jsum_fin: "\<forall>x\<in>set xs. is_fin x \<Longrightarrow> jsum xs = Fin (sum_list (map fin_val xs))"
proof (induction xs)
  case Nil
  show ?case by (simp add: jsum_def)
next
  case (Cons a xs)
  then obtain r where "a = Fin r" by (cases a) auto
  with Cons show ?case by (simp add: jsum_def)
qed

lemma jadd_zero_left: "jadd (Fin 0) x = x"
  by (cases x) auto

lemma reduce_eq_jsum:
  "foldl (\<lambda>acc g. jadd acc (jdiv (current g) (target g))) (Fin 0) gs =
   jsum (map (\<lambda>g. jdiv (current g) (target g)) gs)"
  by (simp add: foldl_jadd jadd_zero_left)

lemma finite_goal_ratio:
  "finite_goal g \<Longrightarrow>
   jdiv (current g) (target g) = Fin (fin_val (current g) / fin_val (target g))"
  by (cases "current g"; cases "target g") (auto simp: finite_goal_def)

lemma finite_goals_sum:
  assumes "\<forall>g\<in>set gs. finite_goal g"
  shows "jsum (map (\<lambda>g. jdiv (current g) (target g)) gs) =
         Fin (\<Sum>g\<leftarrow>gs. fin_val (current g) / fin_val (target g))"
proof -
  have eq: "map (\<lambda>g. jdiv (current g) (target g)) gs =
        map (\<lambda>g. Fin (fin_val (current g) / fin_val (target g))) gs"
    using assms by (simp add: finite_goal_ratio)
  show ?thesis unfolding eq
    by (subst jsum_fin) (auto simp: comp_def)
qed

lemma finite_goals_average:
  assumes "gs \<noteq> []" and "\<forall>g\<in>set gs. finite_goal g"
  shows "averageProgress (computeStats gs) =
         Fin ((\<Sum>g\<leftarrow>gs. fin_val (current g) / fin_val (target g)) / real (length gs) * 100)"
  using assms by (simp add: computeStats_def reduce_eq_jsum finite_goals_sum)

section \<open>Statistics\<close>

text \<open>
  Claim C1. For a non-empty goal list, \<open>averageProgress\<close> is the mean over all goals of
  \<open>current/target\<close> scaled to percent (over the reals when every goal is finite with a
  non-zero target), \<open>completedGoals\<close> is the number of goals with \<open>current >= target\<close>
  and \<open>totalGoals\<close> is the length of the list; the function is a pure function of the
  list; on the empty list \<open>averageProgress\<close> is \<open>NaN\<close>.
\<close>

theorem computeStats_spec:
  "(gs \<noteq> [] \<longrightarrow>
      averageProgress (computeStats gs) = mean_percent gs \<and>
      completedGoals (computeStats gs) =
        card {i. i < length gs \<and> jge (current (gs ! i)) (target (gs ! i))} \<and>
      totalGoals (computeStats gs) = length gs) \<and>
   (gs \<noteq> [] \<and> (\<forall>g\<in>set gs. finite_goal g) \<longrightarrow>
      averageProgress (computeStats gs) =
        Fin ((\<Sum>g\<leftarrow>gs. fin_val (current g) / fin_val (target g)) / real (length gs) * 100)) \<and>
   averageProgress (computeStats []) = NaN"
proof (intro conjI impI)
  show "averageProgress (computeStats gs) = mean_percent gs"
    by (simp add: computeStats_def mean_percent_def reduce_eq_jsum)
  show "completedGoals (computeStats gs) =
        card {i. i < length gs \<and> jge (current (gs ! i)) (target (gs ! i))}"
    by (simp add: computeStats_def length_filter_conv_card)
  show "totalGoals (computeStats gs) = length gs"
    by (simp add: computeStats_def)
  show "averageProgress (computeStats []) = NaN"
    by (simp add: computeStats_def)
next
  assume "gs \<noteq> [] \<and> (\<forall>g\<in>set gs. finite_goal g)"
  then show "averageProgress (computeStats gs) =
        Fin ((\<Sum>g\<leftarrow>gs. fin_val (current g) / fin_val (target g)) / real (length gs) * 100)"
    by (simp add: finite_goals_average)
qed

theorem computeStats_spec_witness:
  "INITIAL_DATA \<noteq> [] \<and> list_all finite_goal INITIAL_DATA \<and>
   averageProgress (computeStats INITIAL_DATA) = Fin (5467 / 680) \<and>
   totalGoals (computeStats INITIAL_DATA) = 8"
proof -
  have ne: "INITIAL_DATA \<noteq> []"
    by (simp add: INITIAL_DATA_def)
  have fin: "\<forall>g\<in>set INITIAL_DATA. finite_goal g"
    by (simp add: INITIAL_DATA_def finite_goal_def)
  have avg: "averageProgress (computeStats INITIAL_DATA) =
        Fin ((\<Sum>g\<leftarrow>INITIAL_DATA. fin_val (current g) / fin_val (target g)) /
             real (length INITIAL_DATA) * 100)"
    and tot: "totalGoals (computeStats INITIAL_DATA) = length INITIAL_DATA"
    using computeStats_spec [of INITIAL_DATA] ne fin by blast+
  have "averageProgress (computeStats INITIAL_DATA) = Fin (5467 / 680)"
    unfolding avg by (simp add: INITIAL_DATA_def)
  moreover have "totalGoals (computeStats INITIAL_DATA) = 8"
    unfolding tot by (simp add: INITIAL_DATA_def)
  ultimately show ?thesis using ne fin by (simp add: list_all_iff)
qed

subsection \<open>When the average is 100\<close>

lemma sum_list_le_length:
  fixes f :: "'a \<Rightarrow> real"
  shows "\<forall>x\<in>set xs. f x \<le> 1 \<Longrightarrow> sum_list (map f xs) \<le> real (length xs)"
  by (induction xs) (auto simp: add_mono)

lemma sum_list_ge_length:
  fixes f :: "'a \<Rightarrow> real"
  shows "\<forall>x\<in>set xs. 1 \<le> f x \<Longrightarrow> real (length xs) \<le> sum_list (map f xs)"
  by (induction xs) (auto simp: add_mono)

lemma sum_list_all_one:
  fixes f :: "'a \<Rightarrow> real"
  shows "\<forall>x\<in>set xs. f x = 1 \<Longrightarrow> sum_list (map f xs) = real (length xs)"
  by (induction xs) simp_all

lemma no_overshoot_finite: "no_overshoot g \<Longrightarrow> finite_goal g"
  by (cases "target g") (auto simp: no_overshoot_def finite_goal_def)

lemma reached_finite: "reached g \<Longrightarrow> finite_goal g"
  by (cases "target g") (auto simp: reached_def finite_goal_def)

lemma no_overshoot_ratio:
  "no_overshoot g \<Longrightarrow> fin_val (current g) / fin_val (target g) \<le> 1"
  by (simp add: no_overshoot_def)

lemma reached_ratio:
  "reached g \<Longrightarrow> 1 \<le> fin_val (current g) / fin_val (target g)"
  by (simp add: reached_def)

lemma at_target_ratio:
  "finite_goal g \<Longrightarrow> current g = target g \<Longrightarrow> fin_val (current g) / fin_val (target g) = 1"
  by (cases "target g") (auto simp: finite_goal_def)

text \<open>
  Claim C8, as the code has it. For a non-empty goal list: if every goal is finite with a
  non-zero target and has \<open>current == target\<close>, \<open>averageProgress\<close> is 100; if no goal is
  beyond its (positive) target, \<open>averageProgress\<close> is at most 100; if every goal has
  reached its (positive) target, \<open>averageProgress\<close> is at least 100. Nothing more: an
  average of 100 does not say that every goal is at its target. On the three kinds of list
  every step of the computation is exact or monotone, so the statement does not rest on
  the finite values being exact.
\<close>

theorem averageProgress_100_amended:
  "gs \<noteq> [] \<Longrightarrow>
   ((\<forall>g\<in>set gs. finite_goal g \<and> current g = target g) \<longrightarrow>
      averageProgress (computeStats gs) = Fin 100) \<and>
   ((\<forall>g\<in>set gs. no_overshoot g) \<longrightarrow> jle (averageProgress (computeStats gs)) (Fin 100)) \<and>
   ((\<forall>g\<in>set gs. reached g) \<longrightarrow> jle (Fin 100) (averageProgress (computeStats gs)))"
proof (intro conjI impI)
  assume ne: "gs \<noteq> []"
  then have n: "0 < real (length gs)" by simp
  let ?r = "\<lambda>g. fin_val (current g) / fin_val (target g)"
  {
    assume eq: "\<forall>g\<in>set gs. finite_goal g \<and> current g = target g"
    then have avg: "averageProgress (computeStats gs) =
        Fin (sum_list (map ?r gs) / real (length gs) * 100)"
      using ne by (simp add: finite_goals_average)
    from eq have "\<forall>g\<in>set gs. ?r g = 1"
      using at_target_ratio by blast
    then have "sum_list (map ?r gs) = real (length gs)"
      by (rule sum_list_all_one)
    with n show "averageProgress (computeStats gs) = Fin 100"
      unfolding avg by simp
  }
  {
    assume no: "\<forall>g\<in>set gs. no_overshoot g"
    then have avg: "averageProgress (computeStats gs) =
        Fin (sum_list (map ?r gs) / real (length gs) * 100)"
      using ne by (simp add: finite_goals_average no_overshoot_finite)
    from no have "\<forall>g\<in>set gs. ?r g \<le> 1"
      by (simp add: no_overshoot_ratio)
    then have "sum_list (map ?r gs) \<le> real (length gs)"
      by (rule sum_list_le_length)
    with n have "sum_list (map ?r gs) / real (length gs) \<le> 1"
      by simp
    then have "sum_list (map ?r gs) / real (length gs) * 100 \<le> 1 * 100"
      by (rule mult_right_mono) simp
    then show "jle (averageProgress (computeStats gs)) (Fin 100)"
      unfolding avg by simp
  }
  {
    assume re: "\<forall>g\<in>set gs. reached g"
    then have avg: "averageProgress (computeStats gs) =
        Fin (sum_list (map ?r gs) / real (length gs) * 100)"
      using ne by (simp add: finite_goals_average reached_finite)
    from re have "\<forall>g\<in>set gs. 1 \<le> ?r g"
      by (simp add: reached_ratio)
    then have "real (length gs) \<le> sum_list (map ?r gs)"
      by (rule sum_list_ge_length)
    with n have "1 \<le> sum_list (map ?r gs) / real (length gs)"
      by simp
    then have "1 * 100 \<le> sum_list (map ?r gs) / real (length gs) * 100"
      by (rule mult_right_mono) simp
    then show "jle (Fin 100) (averageProgress (computeStats gs))"
      unfolding avg by simp
  }
qed

theorem averageProgress_100_amended_witness:
  "done_goals \<noteq> [] \<and> list_all (\<lambda>g. finite_goal g \<and> current g = target g) done_goals \<and>
   averageProgress (computeStats done_goals) = Fin 100 \<and>
   half_goals \<noteq> [] \<and> list_all no_overshoot half_goals \<and>
   averageProgress (computeStats half_goals) = Fin 75 \<and>
   jle (averageProgress (computeStats half_goals)) (Fin 100) \<and>
   over_goals \<noteq> [] \<and> list_all reached over_goals \<and>
   averageProgress (computeStats over_goals) = Fin 125 \<and>
   jle (Fin 100) (averageProgress (computeStats over_goals))"
proof -
  have d1: "done_goals \<noteq> []" by (simp add: done_goals_def)
  have d2: "\<forall>g\<in>set done_goals. finite_goal g \<and> current g = target g"
    by (simp add: done_goals_def finite_goal_def)
  have d3: "averageProgress (computeStats done_goals) = Fin 100"
    using averageProgress_100_amended [OF d1] d2 by blast
  have h1: "half_goals \<noteq> []" by (simp add: half_goals_def)
  have h2: "\<forall>g\<in>set half_goals. no_overshoot g"
    by (simp add: half_goals_def no_overshoot_def)
  have h3: "averageProgress (computeStats half_goals) = Fin 75"
    by (simp add: half_goals_def computeStats_def)
  have h4: "jle (averageProgress (computeStats half_goals)) (Fin 100)"
    using averageProgress_100_amended [OF h1] h2 by blast
  have o1: "over_goals \<noteq> []" by (simp add: over_goals_def)
  have o2: "\<forall>g\<in>set over_goals. reached g"
    by (simp add: over_goals_def reached_def)
  have o3: "averageProgress (computeStats over_goals) = Fin 125"
    by (simp add: over_goals_def computeStats_def)
  have o4: "jle (Fin 100) (averageProgress (computeStats over_goals))"
    using averageProgress_100_amended [OF o1] o2 by blast
  from d1 d2 d3 h1 h2 h3 h4 o1 o2 o3 o4 show ?thesis
    by (simp add: list_all_iff)
qed

text \<open>
  Claim C8 as stated fails: with one goal at 0 of 10 and one at 20 of 10 the average is
  100 although no goal has \<open>current == target\<close>.
\<close>

theorem averageProgress_100_counterexample:
  "averageProgress (computeStats mixed_goals) = Fin 100 \<and>
   current (mixed_goals ! 0) \<noteq> target (mixed_goals ! 0) \<and>
   mixed_goals \<noteq> []"
  by (simp add: mixed_goals_def computeStats_def)

section \<open>Chart data\<close>

lemma remaining_of_progress:
  "jmax (jsub (Fin 100) x) (Fin 0) = jmax (jsub (Fin 100) (jmin x (Fin 100))) (Fin 0)"
  by (cases x) (auto simp: jmax_def jmin_def jsub_def)

lemma chart_progress_range:
  "jle (Fin 0) x =
   (jle (Fin 0) (jmin x (Fin 100)) \<and> jle (jmin x (Fin 100)) (Fin 100))"
  by (cases x) (auto simp: jmin_def)

lemma chart_progress_sum:
  "jle (Fin 0) x \<Longrightarrow>
   jadd (jmin x (Fin 100)) (jmax (jsub (Fin 100) x) (Fin 0)) = Fin 100"
  by (cases x) (auto simp: jmin_def jmax_def jsub_def)

lemma chart_ratio_nonneg:
  "0 \<le> c \<Longrightarrow> 0 < t \<Longrightarrow> jle (Fin 0) (jmul (jdiv (Fin c) (Fin t)) (Fin 100))"
  by simp

lemma chart_entry_nth:
  "i < length gs \<Longrightarrow> computeChartData gs ! i =
      \<lparr>label = name (gs ! i),
       progress = jmin (jmul (jdiv (current (gs ! i)) (target (gs ! i))) (Fin 100)) (Fin 100),
       remaining = jmax (jsub (Fin 100)
         (jmul (jdiv (current (gs ! i)) (target (gs ! i))) (Fin 100))) (Fin 0)\<rparr>"
  by (simp add: computeChartData_def)

text \<open>
  Claim C2, as the code has it. The chart has one entry per goal, in order; in every entry
  \<open>progress = min(current/target*100, 100)\<close> and \<open>remaining = max(100-progress, 0)\<close>;
  \<open>progress\<close> is in [0,100] exactly when \<open>current/target*100\<close> is a number that is not
  negative, as it is for a finite \<open>current >= 0\<close> and a finite \<open>target > 0\<close>, and then
  \<open>progress + remaining\<close> is 100.
\<close>

theorem computeChartData_amended:
  "length (computeChartData gs) = length gs \<and>
   (\<forall>i<length gs.
      progress (computeChartData gs ! i) =
        jmin (jmul (jdiv (current (gs ! i)) (target (gs ! i))) (Fin 100)) (Fin 100) \<and>
      remaining (computeChartData gs ! i) =
        jmax (jsub (Fin 100) (progress (computeChartData gs ! i))) (Fin 0) \<and>
      jle (Fin 0) (jmul (jdiv (current (gs ! i)) (target (gs ! i))) (Fin 100)) =
        (jle (Fin 0) (progress (computeChartData gs ! i)) \<and>
         jle (progress (computeChartData gs ! i)) (Fin 100)) \<and>
      (jle (Fin 0) (jmul (jdiv (current (gs ! i)) (target (gs ! i))) (Fin 100)) \<longrightarrow>
         jadd (progress (computeChartData gs ! i)) (remaining (computeChartData gs ! i))
           = Fin 100) \<and>
      (\<forall>c t. current (gs ! i) = Fin c \<and> target (gs ! i) = Fin t \<and> 0 \<le> c \<and> 0 < t \<longrightarrow>
         jle (Fin 0) (jmul (jdiv (current (gs ! i)) (target (gs ! i))) (Fin 100))))"
proof (intro conjI allI impI)
  show "length (computeChartData gs) = length gs"
    by (simp add: computeChartData_def)
next
  fix i assume "i < length gs"
  then show "progress (computeChartData gs ! i) =
        jmin (jmul (jdiv (current (gs ! i)) (target (gs ! i))) (Fin 100)) (Fin 100)"
    by (simp add: chart_entry_nth)
next
  fix i assume "i < length gs"
  then show "remaining (computeChartData gs ! i) =
        jmax (jsub (Fin 100) (progress (computeChartData gs ! i))) (Fin 0)"
    by (simp add: chart_entry_nth remaining_of_progress [symmetric])
next
  fix i assume "i < length gs"
  then show "jle (Fin 0) (jmul (jdiv (current (gs ! i)) (target (gs ! i))) (Fin 100)) =
        (jle (Fin 0) (progress (computeChartData gs ! i)) \<and>
         jle (progress (computeChartData gs ! i)) (Fin 100))"
    using chart_progress_range [of "jmul (jdiv (current (gs ! i)) (target (gs ! i))) (Fin 100)"]
    by (simp add: chart_entry_nth)
next
  fix i assume "i < length gs"
    and "jle (Fin 0) (jmul (jdiv (current (gs ! i)) (target (gs ! i))) (Fin 100))"
  then show "jadd (progress (computeChartData gs ! i)) (remaining (computeChartData gs ! i))
           = Fin 100"
    using chart_progress_sum [of "jmul (jdiv (current (gs ! i)) (target (gs ! i))) (Fin 100)"]
    by (simp add: chart_entry_nth)
next
  fix i c t
  assume "current (gs ! i) = Fin c \<and> target (gs ! i) = Fin t \<and> 0 \<le> c \<and> 0 < t"
  then show "jle (Fin 0) (jmul (jdiv (current (gs ! i)) (target (gs ! i))) (Fin 100))"
    using chart_ratio_nonneg [of c t] by simp
qed

theorem computeChartData_amended_witness:
  "(0::nat) < length INITIAL_DATA \<and>
   current (INITIAL_DATA ! 0) = Fin 3 \<and> target (INITIAL_DATA ! 0) = Fin 51 \<and>
   (0::real) \<le> 3 \<and> (0::real) < 51 \<and>
   jle (Fin 0) (jmul (jdiv (current (INITIAL_DATA ! 0)) (target (INITIAL_DATA ! 0))) (Fin 100)) \<and>
   progress (computeChartData INITIAL_DATA ! 0) = Fin (100 / 17) \<and>
   jle (Fin 0) (progress (computeChartData INITIAL_DATA ! 0)) \<and>
   jle (progress (computeChartData INITIAL_DATA ! 0)) (Fin 100) \<and>
   jadd (progress (computeChartData INITIAL_DATA ! 0))
        (remaining (computeChartData INITIAL_DATA ! 0)) = Fin 100"
proof -
  have i: "(0::nat) < length INITIAL_DATA"
    by (simp add: INITIAL_DATA_def)
  have g: "current (INITIAL_DATA ! 0) = Fin 3 \<and> target (INITIAL_DATA ! 0) = Fin 51 \<and>
      (0::real) \<le> 3 \<and> (0::real) < 51"
    by (simp add: INITIAL_DATA_def)
  have n: "jle (Fin 0)
      (jmul (jdiv (current (INITIAL_DATA ! 0)) (target (INITIAL_DATA ! 0))) (Fin 100))"
    using computeChartData_amended [of INITIAL_DATA] i g by blast
  have p: "progress (computeChartData INITIAL_DATA ! 0) = Fin (100 / 17)"
    using computeChartData_amended [of INITIAL_DATA] i g
    by (simp add: jmin_def)
  have r: "jle (Fin 0) (progress (computeChartData INITIAL_DATA ! 0)) \<and>
      jle (progress (computeChartData INITIAL_DATA ! 0)) (Fin 100) \<and>
      jadd (progress (computeChartData INITIAL_DATA ! 0))
           (remaining (computeChartData INITIAL_DATA ! 0)) = Fin 100"
    using computeChartData_amended [of INITIAL_DATA] i n by blast
  from i g n p r show ?thesis by blast
qed

text \<open>
  Claim C2 as stated fails: a sheet row with the value \<open>-5\<close> gives a goal whose \<open>progress\<close>
  is \<open>-5\<close>, below 0.
\<close>

theorem computeChartData_counterexample:
  "progress (hd (computeChartData (sync_rows 0 negative_rows))) = Fin (- 5) \<and>
   \<not> jle (Fin 0) (progress (hd (computeChartData (sync_rows 0 negative_rows))))"
  by code_simp

section \<open>Time progress\<close>

lemma jmax_Fin: "jmax (Fin a) (Fin b) = Fin (max a b)"
  by (simp add: jmax_def max_def)

lemma jmin_Fin: "jmin (Fin a) (Fin b) = Fin (min a b)"
  by (simp add: jmin_def min_def)

lemma jsub_Fin: "jsub (Fin a) (Fin b) = Fin (a - b)"
  by (simp add: jsub_def)

lemma percentage_Fin:
  "s < e \<Longrightarrow> percentage (computeTimeProgress (Fin s) (Fin e) (Fin n)) =
     Fin (min (max ((n - s) / (e - s) * 100) 0) 100)"
  by (simp add: computeTimeProgress_def jsub_Fin jmax_Fin jmin_Fin)

lemma daysLeft_Fin:
  "daysLeft (computeTimeProgress (Fin s) (Fin e) (Fin n)) =
     Fin (of_int \<lceil>(e - n) / (1000 * 60 * 60 * 24)\<rceil>)"
  by (simp add: computeTimeProgress_def jsub_Fin)

lemma clamp_mono:
  fixes s e n n' :: real
  assumes "s < e" and "n \<le> n'"
  shows "min (max ((n - s) / (e - s) * 100) 0) 100 \<le> min (max ((n' - s) / (e - s) * 100) 0) 100"
proof -
  from assms have "(n - s) / (e - s) \<le> (n' - s) / (e - s)"
    by (simp add: divide_right_mono)
  then have "(n - s) / (e - s) * 100 \<le> (n' - s) / (e - s) * 100"
    by (rule mult_right_mono) simp
  then show ?thesis
    by (simp add: min_def max_def)
qed

text \<open>
  Claim C3. For \<open>start < end\<close>, \<open>percentage\<close> is \<open>(now-start)/(end-start)*100\<close> clamped
  to [0,100], it is 0 when \<open>now <= start\<close> and 100 when \<open>now >= end\<close>, it does not
  decrease when \<open>now\<close> grows, and \<open>daysLeft\<close> is \<open>ceil((end-now)/day)\<close>.
\<close>

theorem computeTimeProgress_spec:
  "s < e \<Longrightarrow>
   percentage (computeTimeProgress (Fin s) (Fin e) (Fin n)) =
     Fin (min (max ((n - s) / (e - s) * 100) 0) 100) \<and>
   daysLeft (computeTimeProgress (Fin s) (Fin e) (Fin n)) =
     Fin (of_int \<lceil>(e - n) / (1000 * 60 * 60 * 24)\<rceil>) \<and>
   (n \<le> s \<longrightarrow> percentage (computeTimeProgress (Fin s) (Fin e) (Fin n)) = Fin 0) \<and>
   (e \<le> n \<longrightarrow> percentage (computeTimeProgress (Fin s) (Fin e) (Fin n)) = Fin 100) \<and>
   (\<forall>n'. n \<le> n' \<longrightarrow>
      jle (percentage (computeTimeProgress (Fin s) (Fin e) (Fin n)))
          (percentage (computeTimeProgress (Fin s) (Fin e) (Fin n'))))"
proof (intro conjI impI allI)
  assume se: "s < e"
  show "percentage (computeTimeProgress (Fin s) (Fin e) (Fin n)) =
     Fin (min (max ((n - s) / (e - s) * 100) 0) 100)"
    using se by (rule percentage_Fin)
  show "daysLeft (computeTimeProgress (Fin s) (Fin e) (Fin n)) =
     Fin (of_int \<lceil>(e - n) / (1000 * 60 * 60 * 24)\<rceil>)"
    by (rule daysLeft_Fin)
  show "percentage (computeTimeProgress (Fin s) (Fin e) (Fin n)) = Fin 0" if "n \<le> s"
  proof -
    from se that have "(n - s) / (e - s) \<le> 0"
      by (simp add: divide_le_0_iff)
    then have "(n - s) / (e - s) * 100 \<le> 0"
      by (rule mult_nonpos_nonneg) simp
    then show ?thesis
      unfolding percentage_Fin [OF se] by (simp add: max_def min_def)
  qed
  show "percentage (computeTimeProgress (Fin s) (Fin e) (Fin n)) = Fin 100" if "e \<le> n"
  proof -
    from se that have "1 \<le> (n - s) / (e - s)"
      by (simp add: le_divide_eq)
    then have "1 * 100 \<le> (n - s) / (e - s) * 100"
      by (rule mult_right_mono) simp
    then have "100 \<le> (n - s) / (e - s) * 100"
      by (simp only: mult_1)
    then show ?thesis
      unfolding percentage_Fin [OF se] by (simp add: max_def min_def)
  qed
  show "jle (percentage (computeTimeProgress (Fin s) (Fin e) (Fin n)))
          (percentage (computeTimeProgress (Fin s) (Fin e) (Fin n')))" if "n \<le> n'" for n'
    unfolding percentage_Fin [OF se] using clamp_mono [OF se that] by simp
qed

theorem computeTimeProgress_spec_witness:
  "(1771804800000::real) < 1782345600000 \<and>
   percentage (computeTimeProgress (Fin 1771804800000) (Fin 1782345600000) (Fin 1777075200000))
     = Fin 50 \<and>
   daysLeft (computeTimeProgress (Fin 1771804800000) (Fin 1782345600000) (Fin 1777075200000))
     = Fin 61 \<and>
   percentage (computeTimeProgress (Fin 1771804800000) (Fin 1782345600000) (Fin 1771804800000))
     = Fin 0 \<and>
   percentage (computeTimeProgress (Fin 1771804800000) (Fin 1782345600000) (Fin 1782345600000))
     = Fin 100"
proof -
  have se: "(1771804800000::real) < 1782345600000" by simp
  have "percentage (computeTimeProgress (Fin 1771804800000) (Fin 1782345600000)
      (Fin 1777075200000)) = Fin 50"
    using computeTimeProgress_spec [OF se, of 1777075200000] by simp
  moreover have "daysLeft (computeTimeProgress (Fin 1771804800000) (Fin 1782345600000)
      (Fin 1777075200000)) = Fin 61"
    using computeTimeProgress_spec [OF se, of 1777075200000] by simp
  moreover have "percentage (computeTimeProgress (Fin 1771804800000) (Fin 1782345600000)
      (Fin 1771804800000)) = Fin 0"
    using computeTimeProgress_spec [OF se, of 1771804800000] by simp
  moreover have "percentage (computeTimeProgress (Fin 1771804800000) (Fin 1782345600000)
      (Fin 1782345600000)) = Fin 100"
    using computeTimeProgress_spec [OF se, of 1782345600000] by simp
  ultimately show ?thesis using se by blast
qed

section \<open>Text ingestion\<close>

subsection \<open>Writes in the store\<close>

lemma find_goal_Some:
  "find_goal h i arr = Some a \<Longrightarrow> a \<in> set arr \<and> id_goal (h ! a) = i"
  by (induction arr) (auto split: if_splits)

lemma write_current_length: "length (write_current i v arr h) = length h"
  by (simp add: write_current_def split: option.splits)

lemma write_current_values:
  assumes "distinct arr" and "\<forall>a\<in>set arr. a < length h"
  shows "map (\<lambda>a. write_current i v arr h ! a) arr = set_current i v (map (\<lambda>a. h ! a) arr)"
  using assms
proof (induction arr)
  case Nil
  show ?case by (simp add: write_current_def)
next
  case (Cons a0 rest)
  then have d: "distinct rest" and out: "a0 \<notin> set rest" and b0: "a0 < length h"
    and b: "\<forall>a\<in>set rest. a < length h"
    by simp_all
  show ?case
  proof (cases "id_goal (h ! a0) = i")
    case True
    then have w: "write_current i v (a0 # rest) h = h[a0 := (h ! a0)\<lparr>current := v\<rparr>]"
      by (simp add: write_current_def)
    have "h[a0 := (h ! a0)\<lparr>current := v\<rparr>] ! a = h ! a" if "a \<in> set rest" for a
      using that out by (metis nth_list_update_neq)
    then have "map (\<lambda>a. h[a0 := (h ! a0)\<lparr>current := v\<rparr>] ! a) rest = map (\<lambda>a. h ! a) rest"
      by simp
    with True b0 show ?thesis
      unfolding w by simp
  next
    case False
    then have f: "find_goal h i (a0 # rest) = find_goal h i rest"
      by simp
    then have w: "write_current i v (a0 # rest) h = write_current i v rest h"
      by (simp add: write_current_def)
    have "write_current i v rest h ! a0 = h ! a0"
    proof (cases "find_goal h i rest")
      case None
      then show ?thesis by (simp add: write_current_def)
    next
      case (Some a)
      then have "a \<in> set rest" by (simp add: find_goal_Some)
      with out have "a \<noteq> a0" by blast
      with Some show ?thesis by (simp add: write_current_def)
    qed
    with False Cons.IH [OF d b] show ?thesis
      unfolding w by simp
  qed
qed

lemma set_current_at:
  "id_goal g = i \<Longrightarrow> \<forall>p\<in>set pre. id_goal p \<noteq> i \<Longrightarrow>
   set_current i v (pre @ g # post) = pre @ g\<lparr>current := v\<rparr> # post"
  by (induction pre) simp_all

lemma set_current_absent:
  "\<forall>g\<in>set gs. id_goal g \<noteq> i \<Longrightarrow> set_current i v gs = gs"
  by (induction gs) simp_all

subsection \<open>The line of the example\<close>

lemma split_running: "split_lines running_update = [running_update]"
  by code_simp

lemma update_running_line:
  "update_line running_update arr h = write_current (js ''running'') (Fin 3) arr h"
proof -
  have a: "includes_str running_update (js ''Running'')"
    by code_simp
  have m: "first_match (ratio_at is_digit False is_digit) running_update = Some (js ''3'')"
    by code_simp
  have p: "parseInt (js ''3'') = Fin 3"
    by code_simp
  show ?thesis by (simp add: update_line_def a m p)
qed

lemma handleUpdate_running:
  "handleUpdate None (st\<lparr>rawText := running_update\<rparr>) =
   (Updated,
    st\<lparr>heap := write_current (js ''running'') (Fin 3) (goals_arr st) (heap st),
       isUpdateModalOpen := False, rawText := []\<rparr>)"
  by (simp add: handleUpdate_def split_running update_running_line)

lemma goal_list_running:
  assumes "wf_goals st"
  shows "goal_list (snd (handleUpdate None (st\<lparr>rawText := running_update\<rparr>))) =
         set_current (js ''running'') (Fin 3) (goal_list st)"
proof -
  from assms have d: "distinct (goals_arr st)" and b: "\<forall>a\<in>set (goals_arr st). a < length (heap st)"
    by (simp_all add: wf_goals_def list_all_iff)
  show ?thesis
    unfolding handleUpdate_running goal_list_def
    using write_current_values [OF d b] by simp
qed

subsection \<open>Lines without an anchor\<close>

lemma update_line_no_anchor:
  "\<forall>a\<in>set anchors. \<not> includes_str line a \<Longrightarrow> update_line line arr h = h"
  by (simp add: update_line_def anchors_def)

lemma foldl_no_anchor:
  "\<forall>line\<in>set ls. \<forall>a\<in>set anchors. \<not> includes_str line a \<Longrightarrow>
   foldl (\<lambda>h line. update_line line arr h) h ls = h"
  by (induction ls arbitrary: h) (simp_all add: update_line_no_anchor)

text \<open>
  Claim C4. On the seed list, the pasted line \<open>Running (1 Mile): 3/51\<close> leaves a list in
  which \<open>current\<close> of the goal \<open>running\<close> is 3 and everything else is as it was; on every
  well-formed state it sets \<open>current\<close> of the first goal \<open>running\<close> to 3, whatever it was,
  and changes no other goal and no other field; and a text none of whose lines contains
  an anchor leaves the list as it was, and the operation succeeds.
\<close>

theorem text_ingestion:
  "fst (handleUpdate None (seed_update\<lparr>rawText := running_update\<rparr>)) = Updated \<and>
   goal_list (snd (handleUpdate None (seed_update\<lparr>rawText := running_update\<rparr>))) =
     map (\<lambda>g. if id_goal g = js ''running'' then g\<lparr>current := Fin 3\<rparr> else g) INITIAL_DATA \<and>
   (wf_goals st \<and> goal_list st = pre @ g # post \<and> id_goal g = js ''running'' \<and>
    (\<forall>p\<in>set pre. id_goal p \<noteq> js ''running'') \<longrightarrow>
      fst (handleUpdate None (st\<lparr>rawText := running_update\<rparr>)) = Updated \<and>
      goal_list (snd (handleUpdate None (st\<lparr>rawText := running_update\<rparr>))) =
        pre @ g\<lparr>current := Fin 3\<rparr> # post) \<and>
   ((\<forall>line\<in>set (split_lines (rawText st)). \<forall>a\<in>set anchors. \<not> includes_str line a) \<longrightarrow>
      fst (handleUpdate None st) = Updated \<and>
      goal_list (snd (handleUpdate None st)) = goal_list st)"
proof (intro conjI impI)
  show "fst (handleUpdate None (seed_update\<lparr>rawText := running_update\<rparr>)) = Updated"
    by (simp add: handleUpdate_running)
  show "goal_list (snd (handleUpdate None (seed_update\<lparr>rawText := running_update\<rparr>))) =
     map (\<lambda>g. if id_goal g = js ''running'' then g\<lparr>current := Fin 3\<rparr> else g) INITIAL_DATA"
    by code_simp
next
  assume h: "wf_goals st \<and> goal_list st = pre @ g # post \<and> id_goal g = js ''running'' \<and>
    (\<forall>p\<in>set pre. id_goal p \<noteq> js ''running'')"
  show "fst (handleUpdate None (st\<lparr>rawText := running_update\<rparr>)) = Updated"
    by (simp add: handleUpdate_running)
  from h have "goal_list (snd (handleUpdate None (st\<lparr>rawText := running_update\<rparr>))) =
      set_current (js ''running'') (Fin 3) (pre @ g # post)"
    by (simp add: goal_list_running)
  with h show "goal_list (snd (handleUpdate None (st\<lparr>rawText := running_update\<rparr>))) =
      pre @ g\<lparr>current := Fin 3\<rparr> # post"
    by (simp add: set_current_at)
next
  assume "\<forall>line\<in>set (split_lines (rawText st)). \<forall>a\<in>set anchors. \<not> includes_str line a"
  then show "fst (handleUpdate None st) = Updated"
    "goal_list (snd (handleUpdate None st)) = goal_list st"
    by (simp_all add: handleUpdate_def goal_list_def foldl_no_anchor)
qed

theorem text_ingestion_witness:
  "wf_goals stale_update \<and> goal_list stale_update = [gym_goal] @ stale_running # [] \<and>
   id_goal stale_running = js ''running'' \<and>
   list_all (\<lambda>p. id_goal p \<noteq> js ''running'') [gym_goal] \<and>
   current stale_running = Fin 2 \<and>
   goal_list (snd (handleUpdate None (stale_update\<lparr>rawText := running_update\<rparr>))) =
     [gym_goal] @ stale_running\<lparr>current := Fin 3\<rparr> # [] \<and>
   list_all (\<lambda>line. list_all (\<lambda>a. \<not> includes_str line a) anchors) (split_lines plain_text) \<and>
   fst (handleUpdate None (seed_update\<lparr>rawText := plain_text\<rparr>)) = Updated \<and>
   goal_list (snd (handleUpdate None (seed_update\<lparr>rawText := plain_text\<rparr>))) = INITIAL_DATA"
proof -
  have w: "wf_goals stale_update"
    by code_simp
  have l: "goal_list stale_update = [gym_goal] @ stale_running # []"
    by code_simp
  have i: "id_goal stale_running = js ''running''"
    by (simp add: stale_running_def)
  have o: "list_all (\<lambda>p. id_goal p \<noteq> js ''running'') [gym_goal]"
    by code_simp
  then have o': "\<forall>p\<in>set [gym_goal]. id_goal p \<noteq> js ''running''"
    by (simp add: list_all_iff)
  have c: "current stale_running = Fin 2"
    by (simp add: stale_running_def)
  have r: "goal_list (snd (handleUpdate None (stale_update\<lparr>rawText := running_update\<rparr>))) =
      [gym_goal] @ stale_running\<lparr>current := Fin 3\<rparr> # []"
    using text_ingestion [of stale_update "[gym_goal]" stale_running "[]"] w l i o' by blast
  have h: "list_all (\<lambda>line. list_all (\<lambda>a. \<not> includes_str line a) anchors) (split_lines plain_text)"
    by code_simp
  then have h': "\<forall>line\<in>set (split_lines (rawText (seed_update\<lparr>rawText := plain_text\<rparr>))).
      \<forall>a\<in>set anchors. \<not> includes_str line a"
    by (simp add: list_all_iff)
  have s: "goal_list (seed_update\<lparr>rawText := plain_text\<rparr>) = INITIAL_DATA"
    by code_simp
  have "fst (handleUpdate None (seed_update\<lparr>rawText := plain_text\<rparr>)) = Updated \<and>
      goal_list (snd (handleUpdate None (seed_update\<lparr>rawText := plain_text\<rparr>))) =
      goal_list (seed_update\<lparr>rawText := plain_text\<rparr>)"
    using text_ingestion [of "seed_update\<lparr>rawText := plain_text\<rparr>"] h' by blast
  with w l i o c r h s show ?thesis by simp
qed

section \<open>Tabular ingestion\<close>

subsection \<open>One row\<close>

lemma sync_row_None:
  "cell_or (cell r 0) (\<lambda>s. trim s = []) True \<Longrightarrow> sync_row i r = None"
  by (simp add: sync_row_def)

lemma sync_row_fields:
  assumes "sync_row i r = Some g"
  shows "id_goal g = js ''sheet-'' @ nat_to_string i @ js ''-''
           @ toLowerCase (dash_spaces (cell_or (cell r 0) trim []))"
    and "current g =
           (if isNaN (cell_or (cell r 1) (\<lambda>s. parseFloat (remove_commas s)) (Fin 0)) then Fin 0
            else cell_or (cell r 1) (\<lambda>s. parseFloat (remove_commas s)) (Fin 0))"
    and "target g =
           (if isNaN (cell_or (cell r 2) (\<lambda>s. parseFloat (remove_commas s)) (Fin 100)) then Fin 100
            else cell_or (cell r 2) (\<lambda>s. parseFloat (remove_commas s)) (Fin 100))"
    and "category g =
           (if cell_or (cell r 4) (\<lambda>s. toLowerCase (trim s)) (js ''physical'')
                 \<in> set [js ''physical'', js ''mental'', js ''other'']
            then cell_or (cell r 4) (\<lambda>s. toLowerCase (trim s)) (js ''physical'') else js ''physical'')"
proof -
  have c: "\<not> cell_or (cell r 0) (\<lambda>s. trim s = []) True"
    using assms sync_row_None [of r i] by auto
  have "Some g = sync_row i r" using assms by simp
  also have "\<dots> = Some \<lparr>id_goal = js ''sheet-'' @ nat_to_string i @ js ''-''
         @ toLowerCase (dash_spaces (cell_or (cell r 0) trim [])),
       name = cell_or (cell r 0) trim [],
       current =
           (if isNaN (cell_or (cell r 1) (\<lambda>s. parseFloat (remove_commas s)) (Fin 0)) then Fin 0
            else cell_or (cell r 1) (\<lambda>s. parseFloat (remove_commas s)) (Fin 0)),
       target =
           (if isNaN (cell_or (cell r 2) (\<lambda>s. parseFloat (remove_commas s)) (Fin 100)) then Fin 100
            else cell_or (cell r 2) (\<lambda>s. parseFloat (remove_commas s)) (Fin 100)),
       unit = cell_or (cell r 3) trim (js ''Units''),
       category =
           (if cell_or (cell r 4) (\<lambda>s. toLowerCase (trim s)) (js ''physical'')
                 \<in> set [js ''physical'', js ''mental'', js ''other'']
            then cell_or (cell r 4) (\<lambda>s. toLowerCase (trim s)) (js ''physical'') else js ''physical'')\<rparr>"
    unfolding sync_row_def Let_def using c by (simp only: if_False)
  finally have g: "g = \<lparr>id_goal = js ''sheet-'' @ nat_to_string i @ js ''-''
         @ toLowerCase (dash_spaces (cell_or (cell r 0) trim [])),
       name = cell_or (cell r 0) trim [],
       current =
           (if isNaN (cell_or (cell r 1) (\<lambda>s. parseFloat (remove_commas s)) (Fin 0)) then Fin 0
            else cell_or (cell r 1) (\<lambda>s. parseFloat (remove_commas s)) (Fin 0)),
       target =
           (if isNaN (cell_or (cell r 2) (\<lambda>s. parseFloat (remove_commas s)) (Fin 100)) then Fin 100
            else cell_or (cell r 2) (\<lambda>s. parseFloat (remove_commas s)) (Fin 100)),
       unit = cell_or (cell r 3) trim (js ''Units''),
       category =
           (if cell_or (cell r 4) (\<lambda>s. toLowerCase (trim s)) (js ''physical'')
                 \<in> set [js ''physical'', js ''mental'', js ''other'']
            then cell_or (cell r 4) (\<lambda>s. toLowerCase (trim s)) (js ''physical'') else js ''physical'')\<rparr>"
    by (simp only: option.inject)
  show "id_goal g = js ''sheet-'' @ nat_to_string i @ js ''-''
           @ toLowerCase (dash_spaces (cell_or (cell r 0) trim []))"
    by (subst g) (simp only: goal.simps)
  show "current g =
           (if isNaN (cell_or (cell r 1) (\<lambda>s. parseFloat (remove_commas s)) (Fin 0)) then Fin 0
            else cell_or (cell r 1) (\<lambda>s. parseFloat (remove_commas s)) (Fin 0))"
    by (subst g) (simp only: goal.simps)
  show "target g =
           (if isNaN (cell_or (cell r 2) (\<lambda>s. parseFloat (remove_commas s)) (Fin 100)) then Fin 100
            else cell_or (cell r 2) (\<lambda>s. parseFloat (remove_commas s)) (Fin 100))"
    by (subst g) (simp only: goal.simps)
  show "category g =
           (if cell_or (cell r 4) (\<lambda>s. toLowerCase (trim s)) (js ''physical'')
                 \<in> set [js ''physical'', js ''mental'', js ''other'']
            then cell_or (cell r 4) (\<lambda>s. toLowerCase (trim s)) (js ''physical'') else js ''physical'')"
    by (subst g) (simp only: goal.simps)
qed





lemma sync_meditation: "sync_rows 0 [meditation_row] = [meditation_goal]"
  by code_simp






subsection \<open>A zero target\<close>

lemma sync_zero_target: "sync_rows 0 zero_target_rows = [zero_target_goal]"
  by code_simp

lemma zero_target_stats: "averageProgress (computeStats [zero_target_goal]) = PInf"
  by (simp add: computeStats_def zero_target_goal_def scale_inf_def)

lemma zero_target_chart:
  "computeChartData [zero_target_goal] = [\<lparr>label = js ''X'', progress = Fin 100, remaining = Fin 0\<rparr>]"
  by (simp add: computeChartData_def zero_target_goal_def scale_inf_def jmin_def jmax_def jsub_def)

lemma target_defaults:
  "map target (sync_rows 0 [[js ''X'', js ''5'']]) = [Fin 100]"
  "map target (sync_rows 0 [[js ''X'', js ''5'', js '''']]) = [Fin 100]"
  "map target (sync_rows 0 [[js ''X'', js ''5'', js ''abc'']]) = [Fin 100]"
  by code_simp+

text \<open>
  Claim C10. The row \<open>["X", "5", "0"]\<close> gives a goal with target 0: the default of 100
  applies to a missing, an empty and a non-numeric target cell, not to one that parses to
  0. For that goal \<open>current / target\<close> is a division by zero, the average of the
  statistics is \<open>Infinity\<close>, and the chart shows it at 100.
\<close>

theorem zero_target_ingested:
  "sync_rows 0 zero_target_rows = [zero_target_goal] \<and>
   target zero_target_goal = Fin 0 \<and>
   map target (sync_rows 0 [[js ''X'', js ''5'']]) = [Fin 100] \<and>
   map target (sync_rows 0 [[js ''X'', js ''5'', js '''']]) = [Fin 100] \<and>
   map target (sync_rows 0 [[js ''X'', js ''5'', js ''abc'']]) = [Fin 100] \<and>
   jdiv (current zero_target_goal) (target zero_target_goal) = PInf \<and>
   averageProgress (computeStats (sync_rows 0 zero_target_rows)) = PInf \<and>
   computeChartData (sync_rows 0 zero_target_rows) =
     [\<lparr>label = js ''X'', progress = Fin 100, remaining = Fin 0\<rparr>]"
  using sync_zero_target zero_target_stats zero_target_chart target_defaults
  by (simp add: zero_target_goal_def)

subsection \<open>Identifiers of a batch\<close>

lemma is_digit_digit_char: "d < 10 \<Longrightarrow> is_digit (digit_char d)"
  by (simp add: is_digit_def digit_char_def)

lemma digit_val_digit_char: "d < 10 \<Longrightarrow> digit_val (digit_char d) = d"
  by (simp add: digit_val_def digit_char_def)

lemma digits_val_snoc: "digits_val (ds @ [c]) = 10 * digits_val ds + digit_val c"
  by (simp add: digits_val_def)

lemma nat_to_string_digits: "\<forall>c\<in>set (nat_to_string n). is_digit c"
proof (induction n rule: nat_to_string.induct)
  case (1 n)
  show ?case
  proof (cases "n < 10")
    case True
    then show ?thesis
      by (subst nat_to_string.simps) (simp add: is_digit_digit_char)
  next
    case False
    with 1 show ?thesis
      by (subst nat_to_string.simps) (simp add: is_digit_digit_char)
  qed
qed

lemma digits_val_nat_to_string: "digits_val (nat_to_string n) = n"
proof (induction n rule: nat_to_string.induct)
  case (1 n)
  show ?case
  proof (cases "n < 10")
    case True
    then show ?thesis
      by (subst nat_to_string.simps) (simp add: digits_val_def digit_val_digit_char)
  next
    case False
    with 1 have "digits_val (nat_to_string (n div 10)) = n div 10" by simp
    with False show ?thesis
      by (subst nat_to_string.simps) (simp add: digits_val_snoc digit_val_digit_char)
  qed
qed

lemma not_digit_dash: "\<not> is_digit (of_char CHR ''-'')"
  by (simp add: is_digit_def)

lemma id_index_sheet: "id_index (js ''sheet-'' @ nat_to_string i @ js ''-'' @ slug) = i"
proof -
  have p: "drop 6 (js ''sheet-'' @ nat_to_string i @ js ''-'' @ slug) =
      nat_to_string i @ of_char CHR ''-'' # slug"
    by (simp add: js_def)
  have "takeWhile is_digit (nat_to_string i @ of_char CHR ''-'' # slug) = nat_to_string i"
    using nat_to_string_digits [of i] not_digit_dash by (simp add: takeWhile_append2)
  then show ?thesis
    unfolding id_index_def p by (simp add: digits_val_nat_to_string)
qed

lemma sync_row_index: "sync_row i r = Some g \<Longrightarrow> id_index (id_goal g) = i"
  by (simp only: sync_row_fields(1) id_index_sheet)

lemma sync_rows_index_ge:
  "g \<in> set (sync_rows k rows) \<Longrightarrow> k \<le> id_index (id_goal g)"
proof (induction rows arbitrary: k)
  case Nil
  then show ?case by simp
next
  case (Cons r rows)
  show ?case
  proof (cases "sync_row k r")
    case None
    with Cons.prems have "g \<in> set (sync_rows (Suc k) rows)" by simp
    then have "Suc k \<le> id_index (id_goal g)" by (rule Cons.IH)
    then show ?thesis by simp
  next
    case (Some h)
    with Cons.prems have "g = h \<or> g \<in> set (sync_rows (Suc k) rows)" by simp
    then show ?thesis
    proof
      assume "g = h"
      with Some show ?thesis by (simp add: sync_row_index)
    next
      assume "g \<in> set (sync_rows (Suc k) rows)"
      then have "Suc k \<le> id_index (id_goal g)" by (rule Cons.IH)
      then show ?thesis by simp
    qed
  qed
qed

lemma sync_rows_index_distinct:
  "distinct (map (\<lambda>g. id_index (id_goal g)) (sync_rows k rows))"
proof (induction rows arbitrary: k)
  case Nil
  show ?case by simp
next
  case (Cons r rows)
  show ?case
  proof (cases "sync_row k r")
    case None
    then show ?thesis using Cons.IH [of "Suc k"] by simp
  next
    case (Some h)
    have "id_index (id_goal h) \<noteq> id_index (id_goal g)"
      if "g \<in> set (sync_rows (Suc k) rows)" for g
      using sync_rows_index_ge [OF that] sync_row_index [OF Some] by simp
    then have "id_index (id_goal h) \<notin> (\<lambda>g. id_index (id_goal g)) ` set (sync_rows (Suc k) rows)"
      by blast
    with Some show ?thesis using Cons.IH [of "Suc k"] by simp
  qed
qed

lemma distinct_map_map:
  "distinct (map f (map h xs)) \<Longrightarrow> distinct (map h xs)"
  by (induction xs) auto

text \<open>
  Claim C9. The goals of one batch have pairwise distinct identifiers: the identifier
  starts with the row index, which can be read back from it, and no two goals of a batch
  come from the same row.
\<close>

theorem sync_ids_distinct: "distinct (map id_goal (sync_rows 0 rows))"
proof -
  have "distinct (map id_index (map id_goal (sync_rows 0 rows)))"
    using sync_rows_index_distinct [of 0 rows] by (simp add: comp_def)
  then show ?thesis by (rule distinct_map_map)
qed

section \<open>Committing a sync\<close>

lemma sync_rows_nonempty_iff:
  "(sync_rows k rows \<noteq> []) = (\<exists>i<length rows. sync_row (k + i) (rows ! i) \<noteq> None)"
proof (induction rows arbitrary: k)
  case Nil
  show ?case by simp
next
  case (Cons r rows)
  have split: "(\<exists>i<length (r # rows). sync_row (k + i) ((r # rows) ! i) \<noteq> None) =
      (sync_row k r \<noteq> None \<or> (\<exists>i<length rows. sync_row (Suc k + i) (rows ! i) \<noteq> None))"
    by (auto simp: less_Suc_eq_0_disj)
  show ?case
  proof (cases "sync_row k r")
    case None
    then show ?thesis unfolding split using Cons.IH [of "Suc k"] by simp
  next
    case (Some g)
    then show ?thesis unfolding split by simp
  qed
qed

lemma fetch_ok_some:
  assumes "sync_url e = Some url" and "fetch url = Response_ok (Some rows)"
  shows "fetchFromGoogleSheets e fetch st =
    (if sync_rows 0 rows \<noteq> []
     then (Synced (length (sync_rows 0 rows)), st\<lparr>goals := sync_rows 0 rows, isSyncing := False\<rparr>)
     else if rows = [] then (NoDataFound, st\<lparr>isSyncing := False\<rparr>)
     else (NoValidGoals, st\<lparr>isSyncing := False\<rparr>))"
  using assms by (auto simp: fetchFromGoogleSheets_def Let_def)

lemma fetch_ok_none:
  assumes "sync_url e = Some url" and "fetch url = Response_ok None"
  shows "fetchFromGoogleSheets e fetch st = (NoDataFound, st\<lparr>isSyncing := False\<rparr>)"
  using assms by (simp add: fetchFromGoogleSheets_def)

lemma sheet_env_url: "sync_url sheet_env = Some sheet_url"
  by code_simp

text \<open>
  Claim C6. When the request answers with rows, the goal list is replaced by the goals of
  the rows exactly when at least one row gave a goal; with no such row, and with no rows
  at all, a failure is reported and the goal list stays as it was.
\<close>

theorem sync_replaces_iff_valid:
  "sync_url e = Some url \<Longrightarrow> fetch url = Response_ok v \<Longrightarrow>
   (sync_rows 0 (fetched_rows v) \<noteq> [] \<longrightarrow>
      fst (fetchFromGoogleSheets e fetch st) = Synced (length (sync_rows 0 (fetched_rows v))) \<and>
      goals (snd (fetchFromGoogleSheets e fetch st)) = sync_rows 0 (fetched_rows v)) \<and>
   (sync_rows 0 (fetched_rows v) = [] \<longrightarrow>
      is_failure (fst (fetchFromGoogleSheets e fetch st)) \<and>
      goals (snd (fetchFromGoogleSheets e fetch st)) = goals st) \<and>
   (fetched_rows v = [] \<longrightarrow>
      fst (fetchFromGoogleSheets e fetch st) = NoDataFound \<and>
      goals (snd (fetchFromGoogleSheets e fetch st)) = goals st) \<and>
   (\<not> is_failure (fst (fetchFromGoogleSheets e fetch st))) = (sync_rows 0 (fetched_rows v) \<noteq> []) \<and>
   (sync_rows 0 (fetched_rows v) \<noteq> []) =
     (\<exists>i<length (fetched_rows v). sync_row i (fetched_rows v ! i) \<noteq> None)"
proof (cases v)
  case None
  assume "sync_url e = Some url" and "fetch url = Response_ok v"
  with None have "fetchFromGoogleSheets e fetch st = (NoDataFound, st\<lparr>isSyncing := False\<rparr>)"
    by (simp add: fetch_ok_none)
  with None show ?thesis by (simp add: fetched_rows_def)
next
  case (Some rows)
  assume "sync_url e = Some url" and "fetch url = Response_ok v"
  with Some have "fetchFromGoogleSheets e fetch st =
    (if sync_rows 0 rows \<noteq> []
     then (Synced (length (sync_rows 0 rows)), st\<lparr>goals := sync_rows 0 rows, isSyncing := False\<rparr>)
     else if rows = [] then (NoDataFound, st\<lparr>isSyncing := False\<rparr>)
     else (NoValidGoals, st\<lparr>isSyncing := False\<rparr>))"
    by (simp add: fetch_ok_some)
  with Some show ?thesis
    using sync_rows_nonempty_iff [of 0 rows] by (auto simp: fetched_rows_def)
qed

theorem sync_replaces_iff_valid_witness:
  "sync_url sheet_env = Some sheet_url \<and>
   ok_network sheet_url = Response_ok (Some [meditation_row]) \<and>
   fst (fetchFromGoogleSheets sheet_env ok_network seed_state) = Synced 1 \<and>
   goals (snd (fetchFromGoogleSheets sheet_env ok_network seed_state)) = [meditation_goal] \<and>
   \<not> is_failure (fst (fetchFromGoogleSheets sheet_env ok_network seed_state))"
proof -
  have n: "ok_network sheet_url = Response_ok (Some [meditation_row])"
    by (simp add: ok_network_def)
  have r: "sync_rows 0 (fetched_rows (Some [meditation_row])) = [meditation_goal]"
    unfolding fetched_rows_def by (simp only: option.case sync_meditation)
  have l: "length [meditation_goal] = 1" by simp
  from sync_replaces_iff_valid [of sheet_env sheet_url ok_network "Some [meditation_row]"
      seed_state, OF sheet_env_url n]
  have "fst (fetchFromGoogleSheets sheet_env ok_network seed_state) = Synced 1 \<and>
      goals (snd (fetchFromGoogleSheets sheet_env ok_network seed_state)) = [meditation_goal] \<and>
      \<not> is_failure (fst (fetchFromGoogleSheets sheet_env ok_network seed_state))"
    unfolding r l by simp
  with sheet_env_url n show ?thesis by blast
qed

section \<open>Failures\<close>

subsection \<open>A sync that fails\<close>

lemma fetch_failure_keeps_goals:
  "is_failure (fst (fetchFromGoogleSheets e fetch st)) \<Longrightarrow>
   goals (snd (fetchFromGoogleSheets e fetch st)) = goals st"
  by (auto simp: fetchFromGoogleSheets_def Let_def
      split: option.splits fetch_result.splits if_splits)

lemma forbidden_alert:
  "fst (fetchFromGoogleSheets sheet_env forbidden_network seed_state) =
   SyncFailed (js ''HTTP error! status: 403'')"
proof -
  have "nat_to_string 403 = js ''403''" by code_simp
  then show ?thesis
    by (simp add: fetchFromGoogleSheets_def sheet_env_url forbidden_network_def js_def)
qed

lemma forbidden_keeps_goals:
  "goals (snd (fetchFromGoogleSheets sheet_env forbidden_network seed_state)) = INITIAL_DATA"
proof -
  have "is_failure (fst (fetchFromGoogleSheets sheet_env forbidden_network seed_state))"
    by (simp add: forbidden_alert)
  then show ?thesis
    by (simp add: fetch_failure_keeps_goals seed_state_def)
qed

subsection \<open>A text ingestion that fails\<close>

lemma handleUpdate_raised:
  "fst (handleUpdate (Some k) st) = ParseError \<and>
   goals_arr (snd (handleUpdate (Some k) st)) = goals_arr st \<and>
   rawText (snd (handleUpdate (Some k) st)) = rawText st \<and>
   isUpdateModalOpen (snd (handleUpdate (Some k) st)) = isUpdateModalOpen st"
  by (simp add: handleUpdate_def Let_def)

lemma handleUpdate_raised_at_once:
  "goal_list (snd (handleUpdate (Some 0) st)) = goal_list st"
  by (simp add: handleUpdate_def Let_def goal_list_def)

lemma handleUpdate_raised_heap:
  "heap (snd (handleUpdate (Some k) st)) =
   foldl (\<lambda>h line. update_line line (goals_arr st) h) (heap st) (take k (split_lines (rawText st)))"
  by (simp add: handleUpdate_def Let_def)


end
